theory Spec2Isabelle
  imports Complex_Main "HOL-Library.Word"
begin

section \<open>The recitation alignment engine (AdvancedRecitationMatcher)\<close>

text \<open>
  A shallow embedding of \<^verbatim>\<open>src/services/advancedRecitationMatcher.ts\<close>.

  \<^item> A JavaScript string is the list of its UTF-16 code units; every regular expression
    of the matcher is written without the \<^verbatim>\<open>u\<close> flag and names code units of the
    Basic Multilingual Plane only.
  \<^item> A JavaScript number that holds a score or a threshold is an exact rational: the
    rounding of IEEE doubles is not part of this model. Positions, window sizes and
    verse indices are integers, counters are naturals.
  \<^item> \<^verbatim>\<open>String.prototype.toLowerCase\<close> belongs to the runtime, not to the repository.
    It is a parameter \<open>toLowerCase\<close> of every function that normalizes text.
  \<^item> The matcher object is the pair of the immutable corpus \<open>quran\<close> (never null: the
    constructor takes a \<^verbatim>\<open>QuranData\<close>) and the mutable field \<^verbatim>\<open>session\<close>, which
    is \<open>None\<close> before the first \<^verbatim>\<open>initializeSession\<close>. Every method takes the
    session and returns the new one.
\<close>

subsection \<open>Data model\<close>

type_synonym jsstring = "16 word list"

record Aya =
  ayaIndex :: int
  ayaText :: jsstring
  bismillah :: "jsstring option"

record Sura =
  index :: int
  name :: jsstring
  ayas :: "Aya list"

record QuranData =
  suras :: "Sura list"

record AyahWindow =
  startAyah :: int
  endAyah :: int
  windowText :: jsstring
  normalizedText :: jsstring
  words :: "jsstring list"
  windowConfidence :: "rat option"

record WindowScore =
  confidence :: rat
  accuracy :: rat
  matchedWords :: int
  totalWords :: nat
  alignmentScore :: rat

record MatchResult = WindowScore +
  windowIndex :: nat
  matchStartAyah :: int
  matchEndAyah :: int

record RecitationSession =
  suraIndex :: int
  currentPosition :: int
  windowSize :: int
  confidenceThreshold :: rat
  slidingWindows :: "AyahWindow list"
  sessionHistory :: "MatchResult list"
  lastSuccessfulMatch :: "MatchResult option"
  consecutiveFailures :: nat
  isActive :: bool

datatype error = SuraNotFound int

subsection \<open>Text normalizer\<close>

text \<open>The class \<^verbatim>\<open>\s\<close> of an ECMAScript regular expression, which is also the set of
  code units that \<^verbatim>\<open>trim()\<close> strips: WhiteSpace and LineTerminator.\<close>

definition isWhiteSpace :: "16 word \<Rightarrow> bool" where
  "isWhiteSpace c \<longleftrightarrow>
     c \<in> {0x09, 0x0A, 0x0B, 0x0C, 0x0D, 0x20, 0xA0, 0x1680, 0x2028, 0x2029, 0x202F,
          0x205F, 0x3000, 0xFEFF}
     \<or> (0x2000 \<le> c \<and> c \<le> 0x200A)"

text \<open>The character class of the first replacement: U+064B to U+0652.\<close>

definition isDiacritic :: "16 word \<Rightarrow> bool" where
  "isDiacritic c \<longleftrightarrow> 0x064B \<le> c \<and> c \<le> 0x0652"

text \<open>The four letter replacements: U+0625, U+0623, U+0622 to U+0627; U+0629 to U+0647;
  U+064A to U+0649; U+06A9 to U+0643.\<close>

definition foldAlif :: "16 word \<Rightarrow> 16 word" where
  "foldAlif c = (if c = 0x0625 \<or> c = 0x0623 \<or> c = 0x0622 then 0x0627 else c)"

definition foldTaMarbuta :: "16 word \<Rightarrow> 16 word" where
  "foldTaMarbuta c = (if c = 0x0629 then 0x0647 else c)"

definition foldYa :: "16 word \<Rightarrow> 16 word" where
  "foldYa c = (if c = 0x064A then 0x0649 else c)"

definition foldKaf :: "16 word \<Rightarrow> 16 word" where
  "foldKaf c = (if c = 0x06A9 then 0x0643 else c)"

text \<open>\<^verbatim>\<open>.replace(/\s+/g, ' ')\<close>: every maximal run of white space becomes one space.\<close>

function collapseWhitespace :: "jsstring \<Rightarrow> jsstring" where
  "collapseWhitespace [] = []"
| "collapseWhitespace (c # cs) =
     (if isWhiteSpace c then 0x20 # collapseWhitespace (dropWhile isWhiteSpace cs)
      else c # collapseWhitespace cs)"
  by pat_completeness auto
termination
  by (relation "measure length") (auto simp: length_dropWhile_le less_Suc_eq_le)

definition trim :: "jsstring \<Rightarrow> jsstring" where
  "trim s = rev (dropWhile isWhiteSpace (rev (dropWhile isWhiteSpace s)))"

definition normalizeArabicText :: "(jsstring \<Rightarrow> jsstring) \<Rightarrow> jsstring \<Rightarrow> jsstring" where
  "normalizeArabicText toLowerCase text =
     toLowerCase (trim (collapseWhitespace
       (map foldKaf (map foldYa (map foldTaMarbuta (map foldAlif
         (filter (\<lambda>c. \<not> isDiacritic c) text)))))))"

text \<open>\<^verbatim>\<open>s.split(/\s+/)\<close>: the pieces between the maximal runs of white space, the
  empty piece before a leading run and after a trailing run included; \<open>cur\<close> is the
  piece being read. \<^verbatim>\<open>.filter(w => w.length > 0)\<close> then drops the empty pieces.\<close>

fun splitWhitespace :: "jsstring \<Rightarrow> jsstring \<Rightarrow> jsstring list" where
  "splitWhitespace cur [] = [cur]"
| "splitWhitespace cur (c # cs) =
     (if isWhiteSpace c then
        (if cs \<noteq> [] \<and> isWhiteSpace (hd cs) then splitWhitespace cur cs
         else cur # splitWhitespace [] cs)
      else splitWhitespace (cur @ [c]) cs)"

definition tokenize :: "jsstring \<Rightarrow> jsstring list" where
  "tokenize s = filter (\<lambda>w. length w > 0) (splitWhitespace [] s)"

text \<open>\<^verbatim>\<open>parts.join(' ')\<close>\<close>

fun joinSpace :: "jsstring list \<Rightarrow> jsstring" where
  "joinSpace [] = []"
| "joinSpace [w] = w"
| "joinSpace (w # ws) = w @ [0x20] @ joinSpace ws"

subsection \<open>Similarity scorer\<close>

text \<open>\<^verbatim>\<open>levenshteinDistance(str1, str2)\<close>: row \<open>i\<close> of the matrix belongs to the first
  \<open>i\<close> code units of \<open>str2\<close>, column \<open>j\<close> to the first \<open>j\<close> code units of \<open>str1\<close>.
  \<open>levCells\<close> is the inner loop over \<open>j\<close>: \<open>d # u # prev\<close> is what is left of row
  \<open>i - 1\<close> from column \<open>j - 1\<close> on, \<open>left\<close> is cell \<open>j - 1\<close> of row \<open>i\<close>.\<close>

fun levCells :: "16 word \<Rightarrow> jsstring \<Rightarrow> nat list \<Rightarrow> nat \<Rightarrow> nat list" where
  "levCells c2 (c1 # cs) (d # u # prev) left =
     (let v = (if c2 = c1 then d else min (min (d + 1) (left + 1)) (u + 1))
      in v # levCells c2 cs (u # prev) v)"
| "levCells c2 cs prev left = []"

text \<open>The outer loop over \<open>i\<close>: \<open>matrix\<close> holds the rows \<open>0 .. i - 1\<close>.\<close>

fun levFill :: "jsstring \<Rightarrow> jsstring \<Rightarrow> nat list list \<Rightarrow> nat list list" where
  "levFill str1 [] matrix = matrix"
| "levFill str1 (c2 # rest) matrix =
     levFill str1 rest
       (matrix @ [length matrix # levCells c2 str1 (last matrix) (length matrix)])"

definition levenshteinDistance :: "jsstring \<Rightarrow> jsstring \<Rightarrow> nat" where
  "levenshteinDistance str1 str2 =
     levFill str1 str2 [[0 ..< length str1 + 1]] ! length str2 ! length str1"

definition calculateSimilarity :: "jsstring \<Rightarrow> jsstring \<Rightarrow> rat" where
  "calculateSimilarity str1 str2 =
     (let longer = (if length str1 > length str2 then str1 else str2);
          shorter = (if length str1 > length str2 then str2 else str1)
      in if length longer = 0 then 1
         else (let editDistance = levenshteinDistance longer shorter
               in (of_nat (length longer) - of_nat editDistance) / of_nat (length longer)))"

definition arabicWordMatch :: "(jsstring \<Rightarrow> jsstring) \<Rightarrow> jsstring \<Rightarrow> jsstring \<Rightarrow> bool" where
  "arabicWordMatch toLowerCase word1 word2 =
     (if word1 = [] \<or> word2 = [] then False
      else (let norm1 = normalizeArabicText toLowerCase word1;
                norm2 = normalizeArabicText toLowerCase word2
            in if norm1 = norm2 then True
               else if length norm1 > 2 \<and> length norm2 > 2
                    then calculateSimilarity norm1 norm2 \<ge> 85 / 100
                    else False))"

subsection \<open>Sequence aligner\<close>

text \<open>\<^verbatim>\<open>longestCommonSubsequence(arr1, arr2)\<close>. \<open>lcsCells\<close> is the inner loop over
  \<open>j\<close> for the word \<open>a = arr1[i - 1]\<close>: \<open>d # u # prev\<close> is what is left of row
  \<open>i - 1\<close> from column \<open>j - 1\<close> on, \<open>left\<close> is \<open>dp[i][j - 1]\<close>.\<close>

fun lcsCells ::
  "(jsstring \<Rightarrow> jsstring) \<Rightarrow> jsstring \<Rightarrow> jsstring list \<Rightarrow> nat list \<Rightarrow> nat \<Rightarrow> nat list" where
  "lcsCells toLowerCase a (b # bs) (d # u # prev) left =
     (let v = (if arabicWordMatch toLowerCase a b then d + 1 else max u left)
      in v # lcsCells toLowerCase a bs (u # prev) v)"
| "lcsCells toLowerCase a bs prev left = []"

fun lcsFill ::
  "(jsstring \<Rightarrow> jsstring) \<Rightarrow> jsstring list \<Rightarrow> jsstring list \<Rightarrow> nat list list \<Rightarrow> nat list list" where
  "lcsFill toLowerCase [] arr2 dp = dp"
| "lcsFill toLowerCase (a # rest) arr2 dp =
     lcsFill toLowerCase rest arr2 (dp @ [0 # lcsCells toLowerCase a arr2 (last dp) 0])"

text \<open>The reconstruction loop; \<open>lcs.unshift(w)\<close> is \<open>w # lcs\<close>.\<close>

function lcsBacktrack ::
  "(jsstring \<Rightarrow> jsstring) \<Rightarrow> nat list list \<Rightarrow> jsstring list \<Rightarrow> jsstring list \<Rightarrow>
   nat \<Rightarrow> nat \<Rightarrow> jsstring list \<Rightarrow> jsstring list" where
  "lcsBacktrack toLowerCase dp arr1 arr2 i j lcs =
     (if i > 0 \<and> j > 0 then
        (if arabicWordMatch toLowerCase (arr1 ! (i - 1)) (arr2 ! (j - 1))
         then lcsBacktrack toLowerCase dp arr1 arr2 (i - 1) (j - 1) (arr1 ! (i - 1) # lcs)
         else if dp ! (i - 1) ! j > dp ! i ! (j - 1)
              then lcsBacktrack toLowerCase dp arr1 arr2 (i - 1) j lcs
              else lcsBacktrack toLowerCase dp arr1 arr2 i (j - 1) lcs)
      else lcs)"
  by pat_completeness auto
termination
  by (relation "measure (\<lambda>(toLowerCase, dp, arr1, arr2, i, j, lcs). i + j)") auto

declare lcsBacktrack.simps [simp del]

definition longestCommonSubsequence ::
  "(jsstring \<Rightarrow> jsstring) \<Rightarrow> jsstring list \<Rightarrow> jsstring list \<Rightarrow> jsstring list" where
  "longestCommonSubsequence toLowerCase arr1 arr2 =
     (let m = length arr1; n = length arr2;
          dp = lcsFill toLowerCase arr1 arr2 [replicate (n + 1) 0]
      in lcsBacktrack toLowerCase dp arr1 arr2 m n [])"

subsection \<open>Match scorer\<close>

definition calculateSequenceMatch ::
  "(jsstring \<Rightarrow> jsstring) \<Rightarrow> jsstring list \<Rightarrow> jsstring list \<Rightarrow> rat" where
  "calculateSequenceMatch toLowerCase transcribed window =
     (if length transcribed = 0 \<or> length window = 0 then 0
      else (let lcs = longestCommonSubsequence toLowerCase transcribed window
            in of_nat (length lcs) / of_nat (max (length transcribed) (length window))))"

text \<open>A \<^verbatim>\<open>Set\<close> of strings holds each distinct string once. With both word lists
  empty the source divides zero by zero; \<^verbatim>\<open>processAudioChunk\<close>, the only caller,
  never passes an empty transcription.\<close>

definition calculateWordOverlap :: "jsstring list \<Rightarrow> jsstring list \<Rightarrow> rat" where
  "calculateWordOverlap transcribed window =
     (let transcribedSet = remdups transcribed;
          windowSet = remdups window;
          overlap = length (filter (\<lambda>word. word \<in> set windowSet) transcribedSet)
      in of_nat overlap / of_nat (max (length transcribedSet) (length windowSet)))"

definition calculateEditScore :: "jsstring list \<Rightarrow> jsstring list \<Rightarrow> rat" where
  "calculateEditScore transcribed window =
     (let joinedTranscribed = joinSpace transcribed;
          joinedWindow = joinSpace window;
          editDistance = levenshteinDistance joinedTranscribed joinedWindow;
          maxLength = max (length joinedTranscribed) (length joinedWindow)
      in if maxLength > 0 then 1 - of_nat editDistance / of_nat maxLength else 0)"

text \<open>The loop of \<^verbatim>\<open>calculateAlignmentScore\<close> over \<open>i = 0 ..< minLength\<close>, on the
  pair \<open>(alignmentScore, matches)\<close>.\<close>

definition alignmentStep ::
  "(jsstring \<Rightarrow> jsstring) \<Rightarrow> jsstring list \<Rightarrow> jsstring list \<Rightarrow> nat \<Rightarrow>
   rat \<times> nat \<Rightarrow> nat \<Rightarrow> rat \<times> nat" where
  "alignmentStep toLowerCase transcribed window minLength acc i =
     (if arabicWordMatch toLowerCase (transcribed ! i) (window ! i)
      then (fst acc + (of_nat minLength - of_nat i) / of_nat minLength, snd acc + 1)
      else acc)"

definition calculateAlignmentScore ::
  "(jsstring \<Rightarrow> jsstring) \<Rightarrow> jsstring list \<Rightarrow> jsstring list \<Rightarrow> rat" where
  "calculateAlignmentScore toLowerCase transcribed window =
     (let minLength = min (length transcribed) (length window);
          (alignmentScore, matches) =
             foldl (alignmentStep toLowerCase transcribed window minLength) (0, 0)
               [0 ..< minLength]
      in if matches > 0 then alignmentScore / of_nat matches else 0)"

text \<open>\<^verbatim>\<open>Math.round\<close> rounds to the nearest integer, a half upwards.\<close>

definition mathRound :: "rat \<Rightarrow> int" where
  "mathRound x = \<lfloor>x + 1 / 2\<rfloor>"

definition scoreWindow ::
  "(jsstring \<Rightarrow> jsstring) \<Rightarrow> jsstring list \<Rightarrow> AyahWindow \<Rightarrow> WindowScore" where
  "scoreWindow toLowerCase transcribedWords window =
     (let windowWords = words window;
          sequenceMatch = calculateSequenceMatch toLowerCase transcribedWords windowWords;
          overlapScore = calculateWordOverlap transcribedWords windowWords;
          editScore = calculateEditScore transcribedWords windowWords;
          alignment = calculateAlignmentScore toLowerCase transcribedWords windowWords;
          conf = sequenceMatch * (5 / 10) + overlapScore * (3 / 10) + editScore * (2 / 10);
          acc = sequenceMatch
      in \<lparr> confidence = conf,
           accuracy = acc,
           matchedWords = mathRound (sequenceMatch * of_nat (length transcribedWords)),
           totalWords = length transcribedWords,
           alignmentScore = alignment \<rparr>)"

subsection \<open>Window builder\<close>

definition findSura :: "QuranData \<Rightarrow> int \<Rightarrow> Sura option" where
  "findSura quran i = find (\<lambda>s. index s = i) (suras quran)"

text \<open>\<^verbatim>\<open>xs.slice(a, b)\<close>, with the relative indices of ECMAScript.\<close>

definition slice :: "'a list \<Rightarrow> int \<Rightarrow> int \<Rightarrow> 'a list" where
  "slice xs a b =
     (let len = int (length xs);
          k = (if a < 0 then max (len + a) 0 else min a len);
          final = (if b < 0 then max (len + b) 0 else min b len)
      in take (nat (final - k)) (drop (nat k) xs))"

text \<open>The object pushed for the verses \<open>windowAyas\<close>; the builder only calls it on a
  non-empty slice.\<close>

definition makeWindow :: "(jsstring \<Rightarrow> jsstring) \<Rightarrow> Aya list \<Rightarrow> AyahWindow" where
  "makeWindow toLowerCase windowAyas =
     (let combinedText = joinSpace (map ayaText windowAyas);
          normalized = normalizeArabicText toLowerCase combinedText
      in \<lparr> startAyah = ayaIndex (hd windowAyas),
           endAyah = ayaIndex (last windowAyas),
           windowText = combinedText,
           normalizedText = normalized,
           words = tokenize normalized,
           windowConfidence = None \<rparr>)"

text \<open>The inner loop \<^verbatim>\<open>for (let windowSize = 1; windowSize <= session.windowSize; windowSize++)\<close>
  at the start index \<open>i\<close>; \<open>acc\<close> is \<^verbatim>\<open>session.slidingWindows\<close>.\<close>

function buildInner ::
  "(jsstring \<Rightarrow> jsstring) \<Rightarrow> Aya list \<Rightarrow> int \<Rightarrow> int \<Rightarrow> int \<Rightarrow> AyahWindow list \<Rightarrow>
   AyahWindow list" where
  "buildInner toLowerCase suraAyas sessionWindowSize i wSize acc =
     (if wSize \<le> sessionWindowSize then
        buildInner toLowerCase suraAyas sessionWindowSize i (wSize + 1)
          (if i + wSize \<le> int (length suraAyas)
           then acc @ [makeWindow toLowerCase (slice suraAyas i (i + wSize))]
           else acc)
      else acc)"
  by pat_completeness auto
termination
  by (relation "measure (\<lambda>(toLowerCase, suraAyas, sessionWindowSize, i, wSize, acc).
        nat (sessionWindowSize + 1 - wSize))") auto

declare buildInner.simps [simp del]

text \<open>The outer loop \<^verbatim>\<open>for (let i = startPos; i < endPos; i++)\<close>.\<close>

function buildOuter ::
  "(jsstring \<Rightarrow> jsstring) \<Rightarrow> Aya list \<Rightarrow> int \<Rightarrow> int \<Rightarrow> int \<Rightarrow> AyahWindow list \<Rightarrow>
   AyahWindow list" where
  "buildOuter toLowerCase suraAyas sessionWindowSize i endPos acc =
     (if i < endPos then
        buildOuter toLowerCase suraAyas sessionWindowSize (i + 1) endPos
          (buildInner toLowerCase suraAyas sessionWindowSize i 1 acc)
      else acc)"
  by pat_completeness auto
termination
  by (relation "measure (\<lambda>(toLowerCase, suraAyas, sessionWindowSize, i, endPos, acc).
        nat (endPos - i))") auto

declare buildOuter.simps [simp del]

definition buildSlidingWindows ::
  "(jsstring \<Rightarrow> jsstring) \<Rightarrow> QuranData \<Rightarrow> RecitationSession \<Rightarrow> RecitationSession" where
  "buildSlidingWindows toLowerCase quran session =
     (case findSura quran (suraIndex session) of
        None \<Rightarrow> session
      | Some sura \<Rightarrow>
          (let windowRadius = max 5 (windowSize session * 2);
               startPos = max 0 (currentPosition session - windowRadius - 1);
               endPos = min (int (length (ayas sura))) (currentPosition session + windowRadius)
           in session \<lparr> slidingWindows :=
                buildOuter toLowerCase (ayas sura) (windowSize session) startPos endPos [] \<rparr>))"

subsection \<open>Session state machine\<close>

definition initializeSession ::
  "(jsstring \<Rightarrow> jsstring) \<Rightarrow> QuranData \<Rightarrow> int \<Rightarrow> int \<Rightarrow> int \<Rightarrow> error + RecitationSession" where
  "initializeSession toLowerCase quran suraIdx startingAyah wSize =
     (case findSura quran suraIdx of
        None \<Rightarrow> Inl (SuraNotFound suraIdx)
      | Some sura \<Rightarrow>
          Inr (buildSlidingWindows toLowerCase quran
            \<lparr> suraIndex = suraIdx,
              currentPosition = startingAyah,
              windowSize = wSize,
              confidenceThreshold = 7 / 10,
              slidingWindows = [],
              sessionHistory = [],
              lastSuccessfulMatch = None,
              consecutiveFailures = 0,
              isActive = True \<rparr>))"

text \<open>The scoring loop of \<^verbatim>\<open>processAudioChunk\<close> over the windows from index \<open>i\<close> on;
  the result is \<^verbatim>\<open>windowScores\<close>.\<close>

fun scoreWindows ::
  "(jsstring \<Rightarrow> jsstring) \<Rightarrow> rat \<Rightarrow> jsstring list \<Rightarrow> AyahWindow list \<Rightarrow> nat \<Rightarrow>
   MatchResult list" where
  "scoreWindows toLowerCase threshold transcribedWords [] i = []"
| "scoreWindows toLowerCase threshold transcribedWords (window # rest) i =
     (let score = scoreWindow toLowerCase transcribedWords window
      in (if confidence score \<ge> threshold
          then [\<lparr> confidence = confidence score,
                  accuracy = accuracy score,
                  matchedWords = matchedWords score,
                  totalWords = totalWords score,
                  alignmentScore = alignmentScore score,
                  windowIndex = i,
                  matchStartAyah = startAyah window,
                  matchEndAyah = endAyah window \<rparr>]
          else [])
         @ scoreWindows toLowerCase threshold transcribedWords rest (i + 1))"

text \<open>The key of the sort comparator. \<^verbatim>\<open>Array.prototype.sort\<close> is the runtime's; by
  its contract (ECMAScript 2019) it is a stable sort by the comparator, here by
  descending key.\<close>

definition rankScore :: "MatchResult \<Rightarrow> rat" where
  "rankScore a = confidence a * (4 / 10) + accuracy a * (4 / 10) + alignmentScore a * (2 / 10)"

definition sortByRank :: "MatchResult list \<Rightarrow> MatchResult list" where
  "sortByRank windowScores = sort_key (\<lambda>a. - rankScore a) windowScores"

definition handleConsecutiveFailures ::
  "(jsstring \<Rightarrow> jsstring) \<Rightarrow> QuranData \<Rightarrow> RecitationSession \<Rightarrow> RecitationSession" where
  "handleConsecutiveFailures toLowerCase quran session =
     buildSlidingWindows toLowerCase quran
       (session \<lparr> confidenceThreshold := max (5 / 10) (confidenceThreshold session - 1 / 10),
                  windowSize := min 5 (windowSize session + 1),
                  currentPosition :=
                    (case lastSuccessfulMatch session of
                       Some m \<Rightarrow> matchStartAyah m
                     | None \<Rightarrow> 1) \<rparr>)"

definition processAudioChunk ::
  "(jsstring \<Rightarrow> jsstring) \<Rightarrow> QuranData \<Rightarrow> RecitationSession option \<Rightarrow> jsstring \<Rightarrow>
   MatchResult option \<times> RecitationSession option" where
  "processAudioChunk toLowerCase quran sess transcribedText =
     (case sess of
        None \<Rightarrow> (None, sess)
      | Some session \<Rightarrow>
          if \<not> isActive session then (None, sess)
          else
            (let normalizedTranscription = normalizeArabicText toLowerCase transcribedText;
                 transcribedWords = tokenize normalizedTranscription
             in if length transcribedWords = 0 then (None, sess)
                else
                  (case sortByRank (scoreWindows toLowerCase (confidenceThreshold session)
                          transcribedWords (slidingWindows session) 0) of
                     bestMatch # others \<Rightarrow>
                       (Some bestMatch,
                        Some (buildSlidingWindows toLowerCase quran
                          (session \<lparr> lastSuccessfulMatch := Some bestMatch,
                                     currentPosition := matchEndAyah bestMatch + 1,
                                     consecutiveFailures := 0,
                                     sessionHistory := sessionHistory session @ [bestMatch] \<rparr>)))
                   | [] \<Rightarrow>
                       (let failed = session \<lparr> consecutiveFailures :=
                                        consecutiveFailures session + 1 \<rparr>
                        in (None,
                            Some (if consecutiveFailures failed \<ge> 3
                                  then handleConsecutiveFailures toLowerCase quran failed
                                  else failed))))))"

definition jumpToPosition ::
  "(jsstring \<Rightarrow> jsstring) \<Rightarrow> QuranData \<Rightarrow> RecitationSession option \<Rightarrow> int \<Rightarrow>
   RecitationSession option" where
  "jumpToPosition toLowerCase quran sess ayahNumber =
     (case sess of
        None \<Rightarrow> None
      | Some session \<Rightarrow>
          Some (buildSlidingWindows toLowerCase quran
            (session \<lparr> currentPosition := ayahNumber,
                       consecutiveFailures := 0,
                       confidenceThreshold := 7 / 10 \<rparr>)))"

definition resetSession :: "RecitationSession option \<Rightarrow> RecitationSession option" where
  "resetSession sess =
     (case sess of
        None \<Rightarrow> None
      | Some session \<Rightarrow>
          Some (session \<lparr> consecutiveFailures := 0,
                          confidenceThreshold := 7 / 10,
                          windowSize := 3 \<rparr>))"

text \<open>The calls a client can make on a matcher, and a run of them from the state the
  constructor leaves. A failed \<^verbatim>\<open>initializeSession\<close> throws before it assigns
  \<^verbatim>\<open>this.session\<close>, so the session stays as it was.\<close>

datatype call =
    InitializeSession int int int
  | ProcessAudioChunk jsstring
  | JumpToPosition int
  | ResetSession

fun applyCall ::
  "(jsstring \<Rightarrow> jsstring) \<Rightarrow> QuranData \<Rightarrow> RecitationSession option \<Rightarrow> call \<Rightarrow>
   RecitationSession option" where
  "applyCall toLowerCase quran sess (InitializeSession suraIdx startingAyah wSize) =
     (case initializeSession toLowerCase quran suraIdx startingAyah wSize of
        Inl e \<Rightarrow> sess
      | Inr session \<Rightarrow> Some session)"
| "applyCall toLowerCase quran sess (ProcessAudioChunk transcribedText) =
     snd (processAudioChunk toLowerCase quran sess transcribedText)"
| "applyCall toLowerCase quran sess (JumpToPosition ayahNumber) =
     jumpToPosition toLowerCase quran sess ayahNumber"
| "applyCall toLowerCase quran sess ResetSession = resetSession sess"

definition runCalls ::
  "(jsstring \<Rightarrow> jsstring) \<Rightarrow> QuranData \<Rightarrow> call list \<Rightarrow> RecitationSession option" where
  "runCalls toLowerCase quran calls = foldl (applyCall toLowerCase quran) None calls"

text \<open>Lowercasing restricted to Basic Latin, the part of the runtime's case mapping
  that the examples below need: Arabic letters have no case.\<close>

definition asciiLowerUnit :: "16 word \<Rightarrow> 16 word" where
  "asciiLowerUnit c = (if 0x41 \<le> c \<and> c \<le> 0x5A then c + 0x20 else c)"

definition asciiLower :: "jsstring \<Rightarrow> jsstring" where
  "asciiLower s = map asciiLowerUnit s"

subsection \<open>What is assumed of the runtime's case mapping\<close>

text \<open>\<open>folded c\<close>: the normalizer removes or replaces the code unit \<open>c\<close>. A string is
  \<open>canonical\<close> when the steps before \<^verbatim>\<open>toLowerCase\<close> leave it as it is: it holds
  no such code unit, its white space is single spaces, and none at either end.
  \<open>caseMapping lower\<close> is what the properties of the normalizer need of
  \<^verbatim>\<open>toLowerCase\<close>: lowercasing twice is lowercasing once, and lowercasing a canonical
  string neither brings in a diacritic, a letter variant or white space, nor takes away
  what separates two spaces.\<close>

definition folded :: "16 word \<Rightarrow> bool" where
  "folded c \<longleftrightarrow> isDiacritic c \<or> c = 0x0622 \<or> c = 0x0623 \<or> c = 0x0625
                 \<or> c = 0x0629 \<or> c = 0x064A \<or> c = 0x06A9"

definition canonical :: "jsstring \<Rightarrow> bool" where
  "canonical s \<longleftrightarrow> (\<forall>c \<in> set s. \<not> folded c) \<and> collapseWhitespace s = s \<and> trim s = s"

definition caseMapping :: "(jsstring \<Rightarrow> jsstring) \<Rightarrow> bool" where
  "caseMapping lower \<longleftrightarrow>
     (\<forall>s. lower (lower s) = lower s) \<and> (\<forall>s. canonical s \<longrightarrow> canonical (lower s))"

text \<open>Auxiliary notions of the proofs: the letter-level steps of the normalizer, and
  strings whose white space is single spaces.\<close>

definition foldLetters :: "jsstring \<Rightarrow> jsstring" where
  "foldLetters s = map foldKaf (map foldYa (map foldTaMarbuta (map foldAlif
         (filter (\<lambda>c. \<not> isDiacritic c) s))))"

fun wsNormal :: "jsstring \<Rightarrow> bool" where
  "wsNormal [] = True"
| "wsNormal (c # cs) =
     (if isWhiteSpace c then c = 0x20 \<and> (cs = [] \<or> \<not> isWhiteSpace (hd cs)) \<and> wsNormal cs
      else wsNormal cs)"


subsection \<open>The window builder's contract\<close>

text \<open>The contract of the window builder in the words of the specification, to compare
  with \<open>buildSlidingWindows\<close>. Verse positions count from 1: \<open>versesFrom suraAyas p k\<close> is
  the \<open>k\<close> verses from position \<open>p\<close> on; \<open>specWindowsAt\<close> lists the windows of length
  \<open>1 .. wSize\<close> anchored at \<open>p\<close> that end inside the sura; \<open>specWindows\<close> lists them for
  every start position of the sura at most \<open>max 5 (wSize * 2)\<close> verses before or after
  \<open>position\<close>. \<open>contiguous\<close> is the invariant of the corpus: the verses of a sura are
  numbered from 1 without gaps.\<close>

definition versesFrom :: "Aya list \<Rightarrow> int \<Rightarrow> int \<Rightarrow> Aya list" where
  "versesFrom suraAyas p k = take (nat k) (drop (nat (p - 1)) suraAyas)"

definition specWindowsAt ::
  "(jsstring \<Rightarrow> jsstring) \<Rightarrow> Aya list \<Rightarrow> int \<Rightarrow> int \<Rightarrow> AyahWindow list" where
  "specWindowsAt lower suraAyas wSize p =
     concat (map (\<lambda>k. if p + k - 1 \<le> int (length suraAyas)
                       then [makeWindow lower (versesFrom suraAyas p k)] else [])
              [1 .. wSize])"

definition specWindows ::
  "(jsstring \<Rightarrow> jsstring) \<Rightarrow> Aya list \<Rightarrow> int \<Rightarrow> int \<Rightarrow> AyahWindow list" where
  "specWindows lower suraAyas position wSize =
     (let radius = max 5 (wSize * 2)
      in concat (map (specWindowsAt lower suraAyas wSize)
           [max 1 (position - radius) .. min (int (length suraAyas)) (position + radius)]))"

definition contiguous :: "Aya list \<Rightarrow> bool" where
  "contiguous suraAyas \<longleftrightarrow> map ayaIndex suraAyas = [1 .. int (length suraAyas)]"

subsection \<open>The candidates of a scoring pass\<close>


subsection \<open>The edit distance of the specification\<close>

text \<open>The classic unit-cost edit distance, to compare with \<open>levenshteinDistance\<close>:
  \<open>editDistance\<close> is its recurrence, and \<open>editsTo a n b\<close> says that \<open>n\<close> insertions,
  deletions and substitutions of single characters turn \<open>a\<close> into \<open>b\<close>.\<close>

fun editDistance :: "'a list \<Rightarrow> 'a list \<Rightarrow> nat" where
  "editDistance [] b = length b"
| "editDistance a [] = length a"
| "editDistance (x # a) (y # b) =
     min (min (editDistance a (y # b) + 1) (editDistance (x # a) b + 1))
         (editDistance a b + (if x = y then 0 else 1))"




subsection \<open>The invariant of the threshold\<close>

definition thresholdInRange :: "RecitationSession option \<Rightarrow> bool" where
  "thresholdInRange sess \<longleftrightarrow>
     (case sess of
        None \<Rightarrow> True
      | Some s \<Rightarrow> 5 / 10 \<le> confidenceThreshold s \<and> confidenceThreshold s \<le> 7 / 10)"

subsection \<open>A small corpus for the examples\<close>

text \<open>One sura of two verses, the words U+0631 U+0628 and U+0647 U+0648, and the session
  that \<open>initializeSession\<close> builds on it at verse 1 with windows of one verse.\<close>

definition exampleSura :: Sura where
  "exampleSura =
     \<lparr> index = 1, name = [],
       ayas = [\<lparr> ayaIndex = 1, ayaText = [0x0631, 0x0628], bismillah = None \<rparr>,
               \<lparr> ayaIndex = 2, ayaText = [0x0647, 0x0648], bismillah = None \<rparr>] \<rparr>"

definition exampleQuran :: QuranData where
  "exampleQuran = \<lparr> suras = [exampleSura] \<rparr>"

definition exampleSession :: RecitationSession where
  "exampleSession =
     \<lparr> suraIndex = 1, currentPosition = 1, windowSize = 1, confidenceThreshold = 7 / 10,
       slidingWindows =
         [\<lparr> startAyah = 1, endAyah = 1, windowText = [0x0631, 0x0628],
            normalizedText = [0x0631, 0x0628], words = [[0x0631, 0x0628]],
            windowConfidence = None \<rparr>,
          \<lparr> startAyah = 2, endAyah = 2, windowText = [0x0647, 0x0648],
            normalizedText = [0x0647, 0x0648], words = [[0x0647, 0x0648]],
            windowConfidence = None \<rparr>],
       sessionHistory = [], lastSuccessfulMatch = None, consecutiveFailures = 0,
       isActive = True \<rparr>"

section \<open>Properties\<close>

subsection \<open>The normalizer\<close>

lemma isWhiteSpace_space: "isWhiteSpace 0x20"
  by (simp add: isWhiteSpace_def)

lemma dropWhile_hd: "dropWhile P xs = [] \<or> \<not> P (hd (dropWhile P xs))"
  by (induction xs) auto

lemma dropWhile_fix: "xs = [] \<or> \<not> P (hd xs) \<Longrightarrow> dropWhile P xs = xs"
  by (cases xs) auto

lemma collapse_hd:
  "xs = [] \<or> \<not> isWhiteSpace (hd xs) \<Longrightarrow>
   collapseWhitespace xs = [] \<or> \<not> isWhiteSpace (hd (collapseWhitespace xs))"
  by (cases xs) auto

lemma wsNormal_collapse: "wsNormal (collapseWhitespace s)"
proof (induction s rule: collapseWhitespace.induct)
  case 1
  show ?case by simp
next
  case (2 c cs)
  show ?case
  proof (cases "isWhiteSpace c")
    case True
    let ?r = "dropWhile isWhiteSpace cs"
    have r: "?r = [] \<or> \<not> isWhiteSpace (hd ?r)" by (rule dropWhile_hd)
    have "collapseWhitespace ?r = [] \<or> \<not> isWhiteSpace (hd (collapseWhitespace ?r))"
      using r by (rule collapse_hd)
    with True 2 show ?thesis by (simp add: isWhiteSpace_space)
  next
    case False
    with 2 show ?thesis by simp
  qed
qed

lemma collapse_wsNormal: "wsNormal s \<Longrightarrow> collapseWhitespace s = s"
proof (induction s)
  case Nil
  show ?case by simp
next
  case (Cons c cs)
  then show ?case by (cases cs) (auto split: if_splits)
qed

lemma wsNormal_append: "wsNormal (xs @ ys) \<Longrightarrow> wsNormal xs \<and> wsNormal ys"
proof (induction xs)
  case Nil
  then show ?case by simp
next
  case (Cons c cs)
  then show ?case by (cases cs) (auto split: if_splits)
qed

lemma trim_suffix:
  "dropWhile isWhiteSpace s =
   trim s @ rev (takeWhile isWhiteSpace (rev (dropWhile isWhiteSpace s)))"
  unfolding trim_def by (metis rev_append rev_rev_ident takeWhile_dropWhile_id)

lemma trim_infix: "\<exists>a b. s = a @ trim s @ b"
proof -
  have "s = takeWhile isWhiteSpace s @ dropWhile isWhiteSpace s" by simp
  with trim_suffix [of s] show ?thesis by metis
qed

lemma wsNormal_trim: "wsNormal s \<Longrightarrow> wsNormal (trim s)"
  by (metis trim_infix wsNormal_append)

lemma set_trim: "set (trim s) \<subseteq> set s"
  by (metis trim_infix Un_upper1 Un_upper2 set_append subset_trans)

lemma trim_hd: "trim s = [] \<or> \<not> isWhiteSpace (hd (trim s))"
proof (cases "trim s")
  case Nil
  then show ?thesis by simp
next
  case (Cons c cs)
  let ?u = "dropWhile isWhiteSpace s"
  have "hd ?u = hd (trim s)"
    using trim_suffix [of s] Cons by (metis hd_append2 list.distinct(1))
  moreover have "?u \<noteq> []"
    using trim_suffix [of s] Cons by (metis append_is_Nil_conv list.distinct(1))
  ultimately show ?thesis using dropWhile_hd [of isWhiteSpace s] by auto
qed

lemma trim_last: "trim s = [] \<or> \<not> isWhiteSpace (last (trim s))"
proof -
  let ?v = "rev (dropWhile isWhiteSpace s)"
  have "dropWhile isWhiteSpace ?v = [] \<or> \<not> isWhiteSpace (hd (dropWhile isWhiteSpace ?v))"
    by (rule dropWhile_hd)
  then show ?thesis unfolding trim_def by (simp add: last_rev)
qed

lemma trim_fix:
  assumes "s = [] \<or> (\<not> isWhiteSpace (hd s) \<and> \<not> isWhiteSpace (last s))"
  shows "trim s = s"
proof (cases s)
  case Nil
  then show ?thesis by (simp add: trim_def)
next
  case (Cons c cs)
  with assms have h: "\<not> isWhiteSpace (hd s)" and l: "\<not> isWhiteSpace (last s)" by auto
  have 1: "dropWhile isWhiteSpace s = s" using h Cons by simp
  have "rev s \<noteq> []" using Cons by simp
  moreover have "hd (rev s) = last s" using Cons by (simp add: hd_rev)
  ultimately have 2: "dropWhile isWhiteSpace (rev s) = rev s"
    using l by (intro dropWhile_fix) simp
  show ?thesis by (simp add: trim_def 1 2)
qed

lemma trim_idem: "trim (trim s) = trim s"
  using trim_hd [of s] trim_last [of s] by (intro trim_fix) auto

lemma set_collapse: "set (collapseWhitespace s) \<subseteq> insert 0x20 (set s)"
proof (induction s rule: collapseWhitespace.induct)
  case 1
  show ?case by simp
next
  case (2 c cs)
  have "set (dropWhile isWhiteSpace cs) \<subseteq> set cs" by (rule set_dropWhileD [THEN subsetI])
  with 2 show ?case by (cases "isWhiteSpace c") auto
qed

lemma fold_not_folded:
  "\<not> isDiacritic c \<Longrightarrow> \<not> folded (foldKaf (foldYa (foldTaMarbuta (foldAlif c))))"
  by (auto simp: folded_def foldKaf_def foldYa_def foldTaMarbuta_def foldAlif_def isDiacritic_def)

lemma space_not_folded: "\<not> folded 0x20"
  by (simp add: folded_def isDiacritic_def)

lemma foldLetters_clean: "c \<in> set (foldLetters s) \<Longrightarrow> \<not> folded c"
  by (auto simp: foldLetters_def fold_not_folded)

lemma foldLetters_fix: "\<forall>c \<in> set s. \<not> folded c \<Longrightarrow> foldLetters s = s"
  unfolding foldLetters_def
  by (induction s) (auto simp: folded_def foldKaf_def foldYa_def foldTaMarbuta_def foldAlif_def)

lemma canonical_pre: "canonical (trim (collapseWhitespace (foldLetters s)))"
proof -
  let ?y = "collapseWhitespace (foldLetters s)"
  have "\<forall>c \<in> set (trim ?y). \<not> folded c"
    using set_trim [of ?y] set_collapse [of "foldLetters s"] foldLetters_clean [of _ s]
      space_not_folded by blast
  moreover have "collapseWhitespace (trim ?y) = trim ?y"
    by (intro collapse_wsNormal wsNormal_trim wsNormal_collapse)
  ultimately show ?thesis by (simp add: canonical_def trim_idem)
qed

lemma canonical_fix: "canonical s \<Longrightarrow> trim (collapseWhitespace (foldLetters s)) = s"
  by (simp add: canonical_def foldLetters_fix)

lemma normalize_alt:
  "normalizeArabicText lower s = lower (trim (collapseWhitespace (foldLetters s)))"
  by (simp add: normalizeArabicText_def foldLetters_def)

lemma canonical_normalize: "caseMapping lower \<Longrightarrow> canonical (normalizeArabicText lower s)"
  using canonical_pre [of s] by (simp add: normalize_alt caseMapping_def)

text \<open>The Basic Latin lowercasing is a case mapping in this sense.\<close>

lemma asciiLowerUnit_range:
  "0x41 \<le> c \<Longrightarrow> c \<le> 0x5A \<Longrightarrow> 0x61 \<le> c + 0x20 \<and> c + 0x20 \<le> (0x7A :: 16 word)"
  by (simp add: word_le_nat_alt unat_word_ariths)

lemma asciiLowerUnit_idem: "asciiLowerUnit (asciiLowerUnit c) = asciiLowerUnit c"
proof (cases "0x41 \<le> c \<and> c \<le> 0x5A")
  case True
  then have "\<not> c + 0x20 \<le> 0x5A"
    using asciiLowerUnit_range [of c] by (auto simp: word_le_nat_alt)
  with True show ?thesis by (simp add: asciiLowerUnit_def)
next
  case False
  then show ?thesis by (simp add: asciiLowerUnit_def)
qed

lemma latin_not_ws: "0x41 \<le> c \<Longrightarrow> c \<le> (0x7A :: 16 word) \<Longrightarrow> \<not> isWhiteSpace c"
  by (auto simp: isWhiteSpace_def word_le_nat_alt)

lemma latin_not_folded: "0x41 \<le> c \<Longrightarrow> c \<le> (0x7A :: 16 word) \<Longrightarrow> \<not> folded c"
  by (auto simp: folded_def isDiacritic_def word_le_nat_alt)

lemma asciiLowerUnit_latin:
  "asciiLowerUnit c \<noteq> c \<Longrightarrow>
   0x41 \<le> c \<and> c \<le> 0x7A \<and> 0x41 \<le> asciiLowerUnit c \<and> asciiLowerUnit c \<le> 0x7A"
  using asciiLowerUnit_range [of c]
  by (auto simp: asciiLowerUnit_def word_le_nat_alt)

lemma asciiLowerUnit_ws: "isWhiteSpace (asciiLowerUnit c) = isWhiteSpace c"
  using asciiLowerUnit_latin [of c] latin_not_ws by (cases "asciiLowerUnit c = c") auto

lemma asciiLowerUnit_folded: "folded (asciiLowerUnit c) = folded c"
  using asciiLowerUnit_latin [of c] latin_not_folded by (cases "asciiLowerUnit c = c") auto

lemma asciiLowerUnit_space: "asciiLowerUnit 0x20 = 0x20"
  by (simp add: asciiLowerUnit_def)

lemma dropWhile_asciiLower:
  "dropWhile isWhiteSpace (map asciiLowerUnit s) = map asciiLowerUnit (dropWhile isWhiteSpace s)"
  by (induction s) (auto simp: asciiLowerUnit_ws)

lemma collapse_asciiLower:
  "collapseWhitespace (map asciiLowerUnit s) = map asciiLowerUnit (collapseWhitespace s)"
  by (induction s rule: collapseWhitespace.induct)
     (auto simp: asciiLowerUnit_ws asciiLowerUnit_space dropWhile_asciiLower)

lemma trim_asciiLower: "trim (map asciiLowerUnit s) = map asciiLowerUnit (trim s)"
  by (simp add: trim_def dropWhile_asciiLower rev_map)

lemma caseMapping_asciiLower: "caseMapping asciiLower"
  by (auto simp: caseMapping_def asciiLower_def canonical_def asciiLowerUnit_idem
        asciiLowerUnit_folded collapse_asciiLower trim_asciiLower)

text \<open>
  \<^bold>\<open>C6.\<close> Text normalization is idempotent: for every string \<open>x\<close>, normalizing the
  normalized \<open>x\<close> gives the normalized \<open>x\<close>. The runtime's \<^verbatim>\<open>toLowerCase\<close> is any
  function \<open>lower\<close> that is a case mapping in the sense above.
\<close>

theorem normalizeArabicText_idempotent:
  assumes "caseMapping lower"
  shows "normalizeArabicText lower (normalizeArabicText lower x) = normalizeArabicText lower x"
proof -
  let ?p = "trim (collapseWhitespace (foldLetters x))"
  have "canonical (lower ?p)" using assms canonical_pre by (simp add: caseMapping_def)
  then have "trim (collapseWhitespace (foldLetters (lower ?p))) = lower ?p"
    by (rule canonical_fix)
  then show ?thesis using assms by (simp add: normalize_alt caseMapping_def)
qed

text \<open>The instance for the tab, the letters alif with hamza above, fatha, ha, sukun,
  mim, fatha, dal, damma, two spaces and \<open>Ab\<close>.\<close>

theorem normalizeArabicText_idempotent_witness:
  "caseMapping asciiLower \<and>
   normalizeArabicText asciiLower (normalizeArabicText asciiLower
     [0x09, 0x0623, 0x064E, 0x062D, 0x0652, 0x0645, 0x064E, 0x062F, 0x064F, 0x20, 0x20, 0x41, 0x62])
   = normalizeArabicText asciiLower
     [0x09, 0x0623, 0x064E, 0x062D, 0x0652, 0x0645, 0x064E, 0x062F, 0x064F, 0x20, 0x20, 0x41, 0x62]"
  by (intro conjI caseMapping_asciiLower
        normalizeArabicText_idempotent [OF caseMapping_asciiLower])


subsection \<open>The window builder\<close>

lemma slice_versesFrom:
  "0 \<le> i \<Longrightarrow> 1 \<le> k \<Longrightarrow> i + k \<le> int (length xs) \<Longrightarrow>
   slice xs i (i + k) = versesFrom xs (i + 1) k"
  by (simp add: slice_def versesFrom_def Let_def min_def)

lemma buildInner_eq:
  "0 \<le> i \<Longrightarrow> 1 \<le> w \<Longrightarrow>
   buildInner lower suraAyas wSize i w acc =
   acc @ concat (map (\<lambda>k. if i + 1 + k - 1 \<le> int (length suraAyas)
                       then [makeWindow lower (versesFrom suraAyas (i + 1) k)] else [])
              [w .. wSize])"
proof (induction lower suraAyas wSize i w acc rule: buildInner.induct)
  case (1 lower suraAyas wSize i w acc)
  show ?case
  proof (cases "w \<le> wSize")
    case True
    then have u: "[w .. wSize] = w # [w + 1 .. wSize]" by (simp add: upto_rec1)
    show ?thesis
      using True 1 by (subst buildInner.simps) (simp add: u slice_versesFrom)
  next
    case False
    then show ?thesis by (subst buildInner.simps) simp
  qed
qed

lemma buildInner_spec:
  "0 \<le> i \<Longrightarrow>
   buildInner lower suraAyas wSize i 1 acc = acc @ specWindowsAt lower suraAyas wSize (i + 1)"
  by (simp add: buildInner_eq specWindowsAt_def)

lemma buildOuter_eq:
  "0 \<le> i \<Longrightarrow>
   buildOuter lower suraAyas wSize i endPos acc =
   acc @ concat (map (specWindowsAt lower suraAyas wSize) [i + 1 .. endPos])"
proof (induction lower suraAyas wSize i endPos acc rule: buildOuter.induct)
  case (1 lower suraAyas wSize i endPos acc)
  show ?case
  proof (cases "i < endPos")
    case True
    then have u: "[i + 1 .. endPos] = (i + 1) # [i + 1 + 1 .. endPos]" by (simp add: upto_rec1)
    show ?thesis
      using True 1 by (subst buildOuter.simps) (simp add: u buildInner_spec)
  next
    case False
    then show ?thesis by (subst buildOuter.simps) simp
  qed
qed

lemma buildSlidingWindows_eq:
  assumes "findSura quran (suraIndex session) = Some sura"
  shows "buildSlidingWindows lower quran session =
         session \<lparr> slidingWindows :=
           specWindows lower (ayas sura) (currentPosition session) (windowSize session) \<rparr>"
proof -
  let ?r = "max 5 (windowSize session * 2)"
  have "max 0 (currentPosition session - ?r - 1) + 1 = max 1 (currentPosition session - ?r)"
    by simp
  then show ?thesis
    using assms by (simp add: buildSlidingWindows_def Let_def buildOuter_eq specWindows_def)
qed

lemma buildSlidingWindows_fields:
  "suraIndex (buildSlidingWindows lower quran s) = suraIndex s"
  "currentPosition (buildSlidingWindows lower quran s) = currentPosition s"
  "windowSize (buildSlidingWindows lower quran s) = windowSize s"
  "confidenceThreshold (buildSlidingWindows lower quran s) = confidenceThreshold s"
  "sessionHistory (buildSlidingWindows lower quran s) = sessionHistory s"
  "lastSuccessfulMatch (buildSlidingWindows lower quran s) = lastSuccessfulMatch s"
  "consecutiveFailures (buildSlidingWindows lower quran s) = consecutiveFailures s"
  "isActive (buildSlidingWindows lower quran s) = isActive s"
  by (simp_all add: buildSlidingWindows_def Let_def split: option.split)

subsection \<open>Evaluating the examples\<close>

lemmas normalize_eval = normalizeArabicText_def asciiLower_def asciiLowerUnit_def trim_def
  isWhiteSpace_def isDiacritic_def foldAlif_def foldTaMarbuta_def foldYa_def foldKaf_def

lemma normalize_rb: "normalizeArabicText asciiLower [0x0631, 0x0628] = [0x0631, 0x0628]"
  by (simp add: normalize_eval)

lemma normalize_hw: "normalizeArabicText asciiLower [0x0647, 0x0648] = [0x0647, 0x0648]"
  by (simp add: normalize_eval)

lemma normalize_xy: "normalizeArabicText asciiLower [0x78, 0x79] = [0x78, 0x79]"
  by (simp add: normalize_eval)

lemma tokenize_rb: "tokenize [0x0631, 0x0628] = [[0x0631, 0x0628]]"
  by (simp add: tokenize_def isWhiteSpace_def)

lemma tokenize_hw: "tokenize [0x0647, 0x0648] = [[0x0647, 0x0648]]"
  by (simp add: tokenize_def isWhiteSpace_def)

lemma tokenize_xy: "tokenize [0x78, 0x79] = [[0x78, 0x79]]"
  by (simp add: tokenize_def isWhiteSpace_def)



lemma match_xy_rb: "\<not> arabicWordMatch asciiLower [0x78, 0x79] [0x0631, 0x0628]"
  by (simp add: arabicWordMatch_def normalize_rb normalize_xy)

lemma match_xy_hw: "\<not> arabicWordMatch asciiLower [0x78, 0x79] [0x0647, 0x0648]"
  by (simp add: arabicWordMatch_def normalize_hw normalize_xy)



lemma lev_xy_rb: "levenshteinDistance [0x78, 0x79] [0x0631, 0x0628] = 2"
  by (simp add: levenshteinDistance_def)

lemma lev_xy_hw: "levenshteinDistance [0x78, 0x79] [0x0647, 0x0648] = 2"
  by (simp add: levenshteinDistance_def)

lemma mathRound_of_int: "mathRound (of_int k) = k"
  by (simp add: mathRound_def floor_eq_iff)

lemma mathRound_0: "mathRound 0 = 0"
  using mathRound_of_int [of 0] by simp

lemma mathRound_1: "mathRound 1 = 1"
  using mathRound_of_int [of 1] by simp

lemmas score_eval = scoreWindow_def calculateSequenceMatch_def
  longestCommonSubsequence_def lcsBacktrack.simps calculateWordOverlap_def
  calculateEditScore_def calculateAlignmentScore_def alignmentStep_def mathRound_0 mathRound_1

lemma findSura_example: "findSura exampleQuran 1 = Some exampleSura"
  by (simp add: findSura_def exampleQuran_def exampleSura_def)

lemma init_example: "initializeSession asciiLower exampleQuran 1 1 1 = Inr exampleSession"
  by (simp add: initializeSession_def findSura_example buildSlidingWindows_def Let_def
      exampleSura_def buildOuter.simps buildInner.simps makeWindow_def slice_def
      normalize_rb normalize_hw tokenize_rb tokenize_hw exampleSession_def)


lemma scoreWindows_xy:
  "5 / 10 \<le> threshold \<Longrightarrow>
   scoreWindows asciiLower threshold [[0x78, 0x79]] (slidingWindows exampleSession) 0 = []"
  by (simp add: exampleSession_def score_eval match_xy_rb match_xy_hw lev_xy_rb lev_xy_hw)

subsection \<open>The session state machine\<close>

lemma findSura_None: "findSura quran i = None \<longleftrightarrow> (\<forall>s \<in> set (suras quran). index s \<noteq> i)"
  by (auto simp: findSura_def find_None_iff)

lemma splitWhitespace_blank:
  "\<forall>c \<in> set s. isWhiteSpace c \<Longrightarrow> set (splitWhitespace cur s) \<subseteq> {cur, []}"
  by (induction s arbitrary: cur) auto

lemma tokenize_blank:
  assumes "\<forall>c \<in> set s. isWhiteSpace c"
  shows "tokenize s = []"
proof -
  have "set (splitWhitespace [] s) \<subseteq> {[]}" using splitWhitespace_blank [OF assms, of "[]"] by simp
  then show ?thesis unfolding tokenize_def by (auto simp: filter_empty_conv)
qed

text \<open>
  \<^bold>\<open>C8.\<close> \<open>initializeSession\<close> fails with the error "not found" exactly when the corpus has
  no sura of the given index, and returns a session exactly when it has one. On a matcher
  without a session, on an inactive session, and on a transcription whose normalized text
  is empty or white space only, \<open>processAudioChunk\<close> returns no match and the session it
  was given, every field as it was.
\<close>

theorem initializeSession_notFound_processAudioChunk_noop:
  "(initializeSession lower quran suraIdx startingAyah wSize = Inl (SuraNotFound suraIdx)
      \<longleftrightarrow> (\<forall>s \<in> set (suras quran). index s \<noteq> suraIdx))
   \<and> ((\<exists>session. initializeSession lower quran suraIdx startingAyah wSize = Inr session)
      \<longleftrightarrow> (\<exists>s \<in> set (suras quran). index s = suraIdx))
   \<and> (sess = None \<or> (\<exists>session. sess = Some session \<and> \<not> isActive session)
        \<or> (\<forall>c \<in> set (normalizeArabicText lower transcribedText). isWhiteSpace c)
      \<longrightarrow> processAudioChunk lower quran sess transcribedText = (None, sess))"
proof (intro conjI impI)
  show "initializeSession lower quran suraIdx startingAyah wSize = Inl (SuraNotFound suraIdx)
      \<longleftrightarrow> (\<forall>s \<in> set (suras quran). index s \<noteq> suraIdx)"
    using findSura_None [of quran suraIdx]
    by (cases "findSura quran suraIdx") (auto simp: initializeSession_def)
  show "(\<exists>session. initializeSession lower quran suraIdx startingAyah wSize = Inr session)
      \<longleftrightarrow> (\<exists>s \<in> set (suras quran). index s = suraIdx)"
    using findSura_None [of quran suraIdx]
    by (cases "findSura quran suraIdx") (auto simp: initializeSession_def)
  assume "sess = None \<or> (\<exists>session. sess = Some session \<and> \<not> isActive session)
        \<or> (\<forall>c \<in> set (normalizeArabicText lower transcribedText). isWhiteSpace c)"
  then show "processAudioChunk lower quran sess transcribedText = (None, sess)"
    by (auto simp: processAudioChunk_def tokenize_blank Let_def split: option.split)
qed

text \<open>The instances: no sura 7 in the example corpus, sura 1 in it, and the transcription
  of a space and a tab on the example session.\<close>

theorem initializeSession_notFound_processAudioChunk_noop_witness:
  "filter (\<lambda>s. index s = 7) (suras exampleQuran) = []
   \<and> initializeSession asciiLower exampleQuran 7 1 3 = Inl (SuraNotFound 7)
   \<and> (\<exists>s \<in> set (suras exampleQuran). index s = 1)
   \<and> (\<exists>session. initializeSession asciiLower exampleQuran 1 1 3 = Inr session)
   \<and> normalizeArabicText asciiLower [0x20, 0x09] = []
   \<and> processAudioChunk asciiLower exampleQuran (Some exampleSession) [0x20, 0x09]
       = (None, Some exampleSession)"
proof -
  have 0: "filter (\<lambda>s. index s = 7) (suras exampleQuran) = []"
    by (simp add: exampleQuran_def exampleSura_def)
  then have 1: "\<forall>s \<in> set (suras exampleQuran). index s \<noteq> 7"
    by (simp add: filter_empty_conv)
  have 2: "\<exists>s \<in> set (suras exampleQuran). index s = 1"
    by (simp add: exampleQuran_def exampleSura_def)
  have 3: "normalizeArabicText asciiLower [0x20, 0x09] = []"
    by (simp add: normalize_eval)
  then have 4: "\<forall>c \<in> set (normalizeArabicText asciiLower [0x20, 0x09]). isWhiteSpace c"
    by simp
  show ?thesis
    using 0 1 2 3 4
      initializeSession_notFound_processAudioChunk_noop
        [of asciiLower exampleQuran 7 1 3 "Some exampleSession" "[0x20, 0x09]"]
      initializeSession_notFound_processAudioChunk_noop
        [of asciiLower exampleQuran 1 1 3 "Some exampleSession" "[0x20, 0x09]"]
    by blast
qed

text \<open>
  \<^bold>\<open>C9.\<close> On every session whose sura is in the corpus, as that of every initialized
  session is, \<open>jumpToPosition n\<close> sets the threshold to 0.7, the failure count to 0 and
  the position to \<open>n\<close>, and rebuilds the windows around \<open>n\<close>; nothing else changes.
\<close>

theorem jumpToPosition_resets:
  assumes "findSura quran (suraIndex session) = Some sura"
  shows "jumpToPosition lower quran (Some session) n =
         Some (session \<lparr> currentPosition := n,
                          consecutiveFailures := 0,
                          confidenceThreshold := 7 / 10,
                          slidingWindows :=
                            specWindows lower (ayas sura) n (windowSize session) \<rparr>)"
  using assms by (simp add: jumpToPosition_def buildSlidingWindows_eq)

theorem jumpToPosition_resets_witness:
  "findSura exampleQuran (suraIndex exampleSession) = Some exampleSura
   \<and> jumpToPosition asciiLower exampleQuran
        (Some (exampleSession \<lparr> confidenceThreshold := 5 / 10, consecutiveFailures := 4 \<rparr>)) 2 =
      Some (exampleSession \<lparr> currentPosition := 2,
              slidingWindows := specWindows asciiLower (ayas exampleSura) 2 1 \<rparr>)"
proof -
  have 1: "findSura exampleQuran (suraIndex exampleSession) = Some exampleSura"
    by (simp add: findSura_example exampleSession_def)
  have 2: "findSura exampleQuran
      (suraIndex (exampleSession \<lparr> confidenceThreshold := 5 / 10, consecutiveFailures := 4 \<rparr>))
      = Some exampleSura"
    using 1 by simp
  show ?thesis
    using 1 jumpToPosition_resets [OF 2, of asciiLower 2]
    by (simp add: exampleSession_def)
qed


lemma failed_state:
  assumes "isActive session"
    and "tokenize (normalizeArabicText lower transcribedText) \<noteq> []"
    and "scoreWindows lower (confidenceThreshold session)
           (tokenize (normalizeArabicText lower transcribedText)) (slidingWindows session) 0 = []"
    and "findSura quran (suraIndex session) = Some sura"
  shows "processAudioChunk lower quran (Some session) transcribedText =
         (None,
          Some (if consecutiveFailures session + 1 \<ge> 3
                then session \<lparr> consecutiveFailures := consecutiveFailures session + 1,
                       confidenceThreshold := max (5 / 10) (confidenceThreshold session - 1 / 10),
                       windowSize := min 5 (windowSize session + 1),
                       currentPosition :=
                         (case lastSuccessfulMatch session of
                            Some m \<Rightarrow> matchStartAyah m | None \<Rightarrow> 1),
                       slidingWindows :=
                         specWindows lower (ayas sura)
                           (case lastSuccessfulMatch session of
                              Some m \<Rightarrow> matchStartAyah m | None \<Rightarrow> 1)
                           (min 5 (windowSize session + 1)) \<rparr>
                else session \<lparr> consecutiveFailures := consecutiveFailures session + 1 \<rparr>))"
  using assms
  by (simp add: processAudioChunk_def Let_def sortByRank_def handleConsecutiveFailures_def
      buildSlidingWindows_eq)



text \<open>
  \<^bold>\<open>C2.\<close> On an active session whose sura is in the corpus, when the transcription has a
  word and the scoring accepts no window, \<open>processAudioChunk\<close> returns no match and adds
  one to the failure count. Recovery runs exactly when the count after the increment is at
  least 3: with a count of 0 or 1 before the call nothing but the count changes, and from
  2 on recovery lowers the threshold by 0.1 but not below 0.5, raises the window size by 1
  but not above 5, sets the position to the start verse of the last successful match or,
  without one, to 1, and rebuilds the windows around that position with the new size.
  Recovery leaves the failure count as it is, so it runs again on each further failure.
\<close>

theorem processAudioChunk_noMatch:
  assumes "isActive session"
    and "tokenize (normalizeArabicText lower transcribedText) \<noteq> []"
    and "scoreWindows lower (confidenceThreshold session)
           (tokenize (normalizeArabicText lower transcribedText)) (slidingWindows session) 0 = []"
    and "findSura quran (suraIndex session) = Some sura"
    and "position = (case lastSuccessfulMatch session of Some m \<Rightarrow> matchStartAyah m | None \<Rightarrow> 1)"
  shows "processAudioChunk lower quran (Some session) transcribedText =
         (None,
          Some (if consecutiveFailures session + 1 \<ge> 3
                then session \<lparr> consecutiveFailures := consecutiveFailures session + 1,
                       confidenceThreshold := max (5 / 10) (confidenceThreshold session - 1 / 10),
                       windowSize := min 5 (windowSize session + 1),
                       currentPosition := position,
                       slidingWindows :=
                         specWindows lower (ayas sura) position
                           (min 5 (windowSize session + 1)) \<rparr>
                else session \<lparr> consecutiveFailures := consecutiveFailures session + 1 \<rparr>))"
  unfolding assms(5) using assms(1-4) by (rule failed_state)

text \<open>The instance: the third failure in a row on the example session.\<close>

theorem processAudioChunk_noMatch_witness:
  "isActive (exampleSession \<lparr> consecutiveFailures := 2 \<rparr>)
   \<and> tokenize (normalizeArabicText asciiLower [0x78, 0x79]) \<noteq> []
   \<and> scoreWindows asciiLower (confidenceThreshold (exampleSession \<lparr> consecutiveFailures := 2 \<rparr>))
        (tokenize (normalizeArabicText asciiLower [0x78, 0x79]))
        (slidingWindows (exampleSession \<lparr> consecutiveFailures := 2 \<rparr>)) 0 = []
   \<and> findSura exampleQuran (suraIndex (exampleSession \<lparr> consecutiveFailures := 2 \<rparr>))
       = Some exampleSura
   \<and> processAudioChunk asciiLower exampleQuran
        (Some (exampleSession \<lparr> consecutiveFailures := 2 \<rparr>)) [0x78, 0x79] =
       (None,
        Some (exampleSession
          \<lparr> consecutiveFailures := 3,
            confidenceThreshold := 6 / 10,
            windowSize := 2,
            currentPosition := 1,
            slidingWindows := specWindows asciiLower (ayas exampleSura) 1 2 \<rparr>))"
proof -
  let ?s = "exampleSession \<lparr> consecutiveFailures := 2 \<rparr>"
  let ?t = "tokenize (normalizeArabicText asciiLower [0x78, 0x79])"
  have t: "?t = [[0x78, 0x79]]" by (simp add: normalize_xy tokenize_xy)
  have 1: "isActive ?s" by (simp add: exampleSession_def)
  have 2: "?t \<noteq> []" by (simp add: t)
  have 3: "scoreWindows asciiLower (confidenceThreshold ?s) ?t (slidingWindows ?s) 0 = []"
    unfolding t using scoreWindows_xy [of "7 / 10"] by (simp add: exampleSession_def)
  have 4: "findSura exampleQuran (suraIndex ?s) = Some exampleSura"
    by (simp add: findSura_example exampleSession_def)
  have 5: "(1::int) = (case lastSuccessfulMatch ?s of Some m \<Rightarrow> matchStartAyah m | None \<Rightarrow> 1)"
    by (simp add: exampleSession_def)
  show ?thesis
    using 1 2 3 4 processAudioChunk_noMatch [OF 1 2 3 4 5]
    by (simp add: exampleSession_def)
qed

lemma applyCall_threshold:
  assumes "thresholdInRange sess"
  shows "thresholdInRange (applyCall lower quran sess c)"
proof (cases c)
  case (InitializeSession i a w)
  with assms show ?thesis
    by (auto simp: thresholdInRange_def initializeSession_def buildSlidingWindows_fields
        split: option.splits)
next
  case (ProcessAudioChunk t)
  with assms show ?thesis
    by (auto simp: thresholdInRange_def processAudioChunk_def Let_def buildSlidingWindows_fields
        handleConsecutiveFailures_def max_def split: option.splits list.splits)
next
  case (JumpToPosition n)
  with assms show ?thesis
    by (auto simp: thresholdInRange_def jumpToPosition_def buildSlidingWindows_fields
        split: option.splits)
next
  case ResetSession
  with assms show ?thesis
    by (auto simp: thresholdInRange_def resetSession_def split: option.splits)
qed

lemma runCalls_threshold: "thresholdInRange (runCalls lower quran calls)"
  unfolding runCalls_def
proof (induction calls rule: rev_induct)
  case Nil
  show ?case by (simp add: thresholdInRange_def)
next
  case (snoc c calls)
  then show ?case by (simp add: applyCall_threshold)
qed

text \<open>The sura of every session that a run of calls leaves is in the corpus: only
  \<open>initializeSession\<close> sets \<open>suraIndex\<close>, after it has found the sura. The hypothesis
  \<open>findSura quran (suraIndex session) = Some sura\<close> of the theorems above therefore holds of
  every session of a matcher.\<close>

lemma applyCall_sura_known:
  assumes "\<forall>s. sess = Some s \<longrightarrow> findSura quran (suraIndex s) \<noteq> None"
  shows "\<forall>s. applyCall lower quran sess c = Some s \<longrightarrow> findSura quran (suraIndex s) \<noteq> None"
proof (cases c)
  case (InitializeSession i a w)
  with assms show ?thesis
    by (auto simp: initializeSession_def buildSlidingWindows_fields split: option.splits)
next
  case (ProcessAudioChunk t)
  with assms show ?thesis
    by (auto simp: processAudioChunk_def Let_def buildSlidingWindows_fields
        handleConsecutiveFailures_def split: option.splits list.splits if_splits)
next
  case (JumpToPosition n)
  with assms show ?thesis
    by (auto simp: jumpToPosition_def buildSlidingWindows_fields split: option.splits)
next
  case ResetSession
  with assms show ?thesis
    by (auto simp: resetSession_def split: option.splits)
qed

lemma runCalls_sura_known:
  "runCalls lower quran calls = Some session \<Longrightarrow>
   \<exists>sura. findSura quran (suraIndex session) = Some sura"
proof -
  have "\<forall>s. runCalls lower quran calls = Some s \<longrightarrow> findSura quran (suraIndex s) \<noteq> None"
    unfolding runCalls_def
  proof (induction calls rule: rev_induct)
    case Nil
    show ?case by simp
  next
    case (snoc c calls)
    then show ?case using applyCall_sura_known [of _ quran lower c] by simp
  qed
  moreover assume "runCalls lower quran calls = Some session"
  ultimately show ?thesis by auto
qed

text \<open>
  \<^bold>\<open>C10.\<close> After any sequence of calls of \<open>initializeSession\<close>, \<open>processAudioChunk\<close>,
  \<open>jumpToPosition\<close> and \<open>resetSession\<close> on a new matcher, the threshold of the session,
  if there is one, lies between 0.5 and 0.7.
\<close>

theorem confidenceThreshold_bounds:
  "runCalls lower quran calls = Some session \<Longrightarrow>
   5 / 10 \<le> confidenceThreshold session \<and> confidenceThreshold session \<le> 7 / 10"
  using runCalls_threshold [of lower quran calls] by (simp add: thresholdInRange_def)

lemma example_failure:
  "processAudioChunk asciiLower exampleQuran
     (Some (exampleSession \<lparr> consecutiveFailures := n \<rparr>)) [0x78, 0x79] =
   (None,
    Some (if n + 1 \<ge> 3
          then exampleSession \<lparr> consecutiveFailures := n + 1, confidenceThreshold := 6 / 10,
                 windowSize := 2, currentPosition := 1,
                 slidingWindows := specWindows asciiLower (ayas exampleSura) 1 2 \<rparr>
          else exampleSession \<lparr> consecutiveFailures := n + 1 \<rparr>))"
proof -
  let ?s = "exampleSession \<lparr> consecutiveFailures := n \<rparr>"
  let ?t = "tokenize (normalizeArabicText asciiLower [0x78, 0x79])"
  have t: "?t = [[0x78, 0x79]]" by (simp add: normalize_xy tokenize_xy)
  have 1: "isActive ?s" by (simp add: exampleSession_def)
  have 2: "?t \<noteq> []" by (simp add: t)
  have 3: "scoreWindows asciiLower (confidenceThreshold ?s) ?t (slidingWindows ?s) 0 = []"
    unfolding t using scoreWindows_xy [of "7 / 10"] by (simp add: exampleSession_def)
  have 4: "findSura exampleQuran (suraIndex ?s) = Some exampleSura"
    by (simp add: findSura_example exampleSession_def)
  show ?thesis
    using failed_state [OF 1 2 3 4] by (simp add: exampleSession_def)
qed

lemma example_three_failures:
  "runCalls asciiLower exampleQuran
     [InitializeSession 1 1 1, ProcessAudioChunk [0x78, 0x79], ProcessAudioChunk [0x78, 0x79],
      ProcessAudioChunk [0x78, 0x79]] =
   Some (exampleSession \<lparr> consecutiveFailures := 3, confidenceThreshold := 6 / 10,
           windowSize := 2, currentPosition := 1,
           slidingWindows := specWindows asciiLower (ayas exampleSura) 1 2 \<rparr>)"
proof -
  have 0: "exampleSession = exampleSession \<lparr> consecutiveFailures := 0 \<rparr>"
    by (simp add: exampleSession_def)
  let ?xy = "ProcessAudioChunk [0x78, 0x79]"
  have 1: "applyCall asciiLower exampleQuran None (InitializeSession 1 1 1) = Some exampleSession"
    by (simp add: init_example)
  have 2: "applyCall asciiLower exampleQuran (Some exampleSession) ?xy =
           Some (exampleSession \<lparr> consecutiveFailures := 1 \<rparr>)"
    using example_failure [of 0] 0 by simp
  have 3: "applyCall asciiLower exampleQuran
             (Some (exampleSession \<lparr> consecutiveFailures := 1 \<rparr>)) ?xy =
           Some (exampleSession \<lparr> consecutiveFailures := 2 \<rparr>)"
    using example_failure [of 1] by simp
  have 4: "applyCall asciiLower exampleQuran
             (Some (exampleSession \<lparr> consecutiveFailures := 2 \<rparr>)) ?xy =
           Some (exampleSession \<lparr> consecutiveFailures := 3, confidenceThreshold := 6 / 10,
                   windowSize := 2, currentPosition := 1,
                   slidingWindows := specWindows asciiLower (ayas exampleSura) 1 2 \<rparr>)"
    using example_failure [of 2] by simp
  show ?thesis
    by (simp only: runCalls_def foldl.simps 1 2 3 4)
qed

text \<open>The instance: the example session after three transcriptions that match no
  window, with the threshold at 0.6.\<close>

theorem confidenceThreshold_bounds_witness:
  "runCalls asciiLower exampleQuran
     [InitializeSession 1 1 1, ProcessAudioChunk [0x78, 0x79], ProcessAudioChunk [0x78, 0x79],
      ProcessAudioChunk [0x78, 0x79]] =
   Some (exampleSession \<lparr> consecutiveFailures := 3, confidenceThreshold := 6 / 10,
           windowSize := 2, currentPosition := 1,
           slidingWindows := specWindows asciiLower (ayas exampleSura) 1 2 \<rparr>)
   \<and> 5 / 10 \<le> confidenceThreshold
        (exampleSession \<lparr> consecutiveFailures := 3, confidenceThreshold := 6 / 10,
           windowSize := 2, currentPosition := 1,
           slidingWindows := specWindows asciiLower (ayas exampleSura) 1 2 \<rparr>)
   \<and> confidenceThreshold
        (exampleSession \<lparr> consecutiveFailures := 3, confidenceThreshold := 6 / 10,
           windowSize := 2, currentPosition := 1,
           slidingWindows := specWindows asciiLower (ayas exampleSura) 1 2 \<rparr>) \<le> 7 / 10"
  using confidenceThreshold_bounds [OF example_three_failures] example_three_failures
  by blast


subsection \<open>The contract of the window builder\<close>

lemma versesFrom_length:
  "1 \<le> k \<Longrightarrow> 1 \<le> p \<Longrightarrow> p + k - 1 \<le> int (length xs) \<Longrightarrow> length (versesFrom xs p k) = nat k"
  by (simp add: versesFrom_def)

lemma versesFrom_nth:
  "1 \<le> k \<Longrightarrow> 1 \<le> p \<Longrightarrow> p + k - 1 \<le> int (length xs) \<Longrightarrow> i < nat k \<Longrightarrow>
   versesFrom xs p k ! i = xs ! (nat (p - 1) + i)"
  by (simp add: versesFrom_def)

lemma contiguous_nth:
  "contiguous xs \<Longrightarrow> i < length xs \<Longrightarrow> ayaIndex (xs ! i) = int i + 1"
proof -
  assume c: "contiguous xs" and i: "i < length xs"
  have "ayaIndex (xs ! i) = map ayaIndex xs ! i" using i by simp
  also have "\<dots> = [1 .. int (length xs)] ! i" using c by (simp add: contiguous_def)
  also have "\<dots> = 1 + int i" using i by (intro nth_upto) simp
  finally show ?thesis by simp
qed

lemma makeWindow_bounds:
  assumes "contiguous xs" "1 \<le> k" "1 \<le> p" "p + k - 1 \<le> int (length xs)"
  shows "startAyah (makeWindow lower (versesFrom xs p k)) = p
       \<and> endAyah (makeWindow lower (versesFrom xs p k)) = p + k - 1"
proof -
  let ?v = "versesFrom xs p k"
  have len: "length ?v = nat k" using assms by (simp add: versesFrom_length)
  then have ne: "?v \<noteq> []" using assms(2) by auto
  have "hd ?v = ?v ! 0" using ne by (simp add: hd_conv_nth)
  also have "\<dots> = xs ! nat (p - 1)" using versesFrom_nth [OF assms(2-4), of 0] assms(2) by simp
  finally have h: "ayaIndex (hd ?v) = p"
    using contiguous_nth [OF assms(1), of "nat (p - 1)"] assms by simp
  have "last ?v = ?v ! (nat k - 1)" using ne len by (simp add: last_conv_nth)
  also have "\<dots> = xs ! (nat (p - 1) + (nat k - 1))"
    using versesFrom_nth [OF assms(2-4), of "nat k - 1"] assms(2) by simp
  finally have l: "ayaIndex (last ?v) = p + k - 1"
    using contiguous_nth [OF assms(1), of "nat (p - 1) + (nat k - 1)"] assms by simp
  show ?thesis using h l by (simp add: makeWindow_def Let_def)
qed

lemma set_specWindows:
  "w \<in> set (specWindows lower xs position wSize) \<longleftrightarrow>
   (\<exists>p k. 1 \<le> k \<and> k \<le> wSize \<and> 1 \<le> p \<and> p + k - 1 \<le> int (length xs)
        \<and> position - max 5 (wSize * 2) \<le> p \<and> p \<le> position + max 5 (wSize * 2)
        \<and> w = makeWindow lower (versesFrom xs p k))"
proof
  assume "w \<in> set (specWindows lower xs position wSize)"
  then obtain p k where "1 \<le> k" "k \<le> wSize" "1 \<le> p" "p + k - 1 \<le> int (length xs)"
    "position - max 5 (wSize * 2) \<le> p" "p \<le> position + max 5 (wSize * 2)"
    "w = makeWindow lower (versesFrom xs p k)"
    by (auto simp: specWindows_def specWindowsAt_def Let_def split: if_splits)
  then show "\<exists>p k. 1 \<le> k \<and> k \<le> wSize \<and> 1 \<le> p \<and> p + k - 1 \<le> int (length xs)
        \<and> position - max 5 (wSize * 2) \<le> p \<and> p \<le> position + max 5 (wSize * 2)
        \<and> w = makeWindow lower (versesFrom xs p k)"
    by blast
next
  assume "\<exists>p k. 1 \<le> k \<and> k \<le> wSize \<and> 1 \<le> p \<and> p + k - 1 \<le> int (length xs)
        \<and> position - max 5 (wSize * 2) \<le> p \<and> p \<le> position + max 5 (wSize * 2)
        \<and> w = makeWindow lower (versesFrom xs p k)"
  then obtain p k where pk: "1 \<le> k" "k \<le> wSize" "1 \<le> p" "p + k - 1 \<le> int (length xs)"
    "position - max 5 (wSize * 2) \<le> p" "p \<le> position + max 5 (wSize * 2)"
    "w = makeWindow lower (versesFrom xs p k)"
    by blast
  have "w \<in> set (specWindowsAt lower xs wSize p)"
    using pk by (auto simp: specWindowsAt_def intro!: bexI [of _ k])
  moreover have "p \<in> set [max 1 (position - max 5 (wSize * 2)) ..
                          min (int (length xs)) (position + max 5 (wSize * 2))]"
    using pk by simp
  ultimately show "w \<in> set (specWindows lower xs position wSize)"
    unfolding specWindows_def Let_def set_concat set_map by blast
qed

text \<open>
  \<^bold>\<open>C5.\<close> For a session whose sura is in the corpus, the window builder produces
  exactly the windows of the contract, in its order: for every start position of the sura
  at most \<open>max 5 (windowSize * 2)\<close> verses before or after \<open>currentPosition\<close>, the
  windows of \<open>1 .. windowSize\<close> verses from that position that end inside the sura. In a
  sura whose verses are numbered from 1 without gaps, the window of \<open>k\<close> verses from
  position \<open>p\<close> has start verse \<open>p\<close> and end verse \<open>p + k - 1\<close>.
\<close>

theorem buildSlidingWindows_contract:
  assumes "findSura quran (suraIndex session) = Some sura"
  shows "slidingWindows (buildSlidingWindows lower quran session) =
           specWindows lower (ayas sura) (currentPosition session) (windowSize session)
       \<and> (\<forall>w. w \<in> set (slidingWindows (buildSlidingWindows lower quran session)) \<longleftrightarrow>
            (\<exists>p k. 1 \<le> k \<and> k \<le> windowSize session
               \<and> 1 \<le> p \<and> p + k - 1 \<le> int (length (ayas sura))
               \<and> currentPosition session - max 5 (windowSize session * 2) \<le> p
               \<and> p \<le> currentPosition session + max 5 (windowSize session * 2)
               \<and> w = makeWindow lower (versesFrom (ayas sura) p k)))
       \<and> (contiguous (ayas sura) \<longrightarrow>
            (\<forall>p k. 1 \<le> k \<and> 1 \<le> p \<and> p + k - 1 \<le> int (length (ayas sura)) \<longrightarrow>
               startAyah (makeWindow lower (versesFrom (ayas sura) p k)) = p
             \<and> endAyah (makeWindow lower (versesFrom (ayas sura) p k)) = p + k - 1))"
  using assms by (simp add: buildSlidingWindows_eq set_specWindows makeWindow_bounds)

text \<open>The instance: the example session, and the window of the second verse.\<close>

theorem buildSlidingWindows_contract_witness:
  "findSura exampleQuran (suraIndex exampleSession) = Some exampleSura
   \<and> contiguous (ayas exampleSura)
   \<and> slidingWindows (buildSlidingWindows asciiLower exampleQuran exampleSession) =
       specWindows asciiLower (ayas exampleSura) 1 1
   \<and> makeWindow asciiLower (versesFrom (ayas exampleSura) 2 1)
       \<in> set (slidingWindows (buildSlidingWindows asciiLower exampleQuran exampleSession))
   \<and> startAyah (makeWindow asciiLower (versesFrom (ayas exampleSura) 2 1)) = 2
   \<and> endAyah (makeWindow asciiLower (versesFrom (ayas exampleSura) 2 1)) = 2"
proof -
  have 1: "findSura exampleQuran (suraIndex exampleSession) = Some exampleSura"
    by (simp add: findSura_example exampleSession_def)
  have 2: "contiguous (ayas exampleSura)"
    by (simp add: contiguous_def exampleSura_def upto_rec1)
  have 3: "currentPosition exampleSession = 1" "windowSize exampleSession = 1"
    "int (length (ayas exampleSura)) = 2"
    by (simp_all add: exampleSession_def exampleSura_def)
  have 4: "\<exists>p k. 1 \<le> k \<and> k \<le> 1 \<and> 1 \<le> p \<and> p + k - 1 \<le> 2
             \<and> 1 - max 5 (1 * 2) \<le> p \<and> p \<le> 1 + max 5 (1 * 2)
             \<and> makeWindow asciiLower (versesFrom (ayas exampleSura) 2 1)
                 = makeWindow asciiLower (versesFrom (ayas exampleSura) p k)"
    by (intro exI [of _ 2] exI [of _ 1]) simp
  note r = buildSlidingWindows_contract [OF 1, of asciiLower, unfolded 3]
  have 5: "slidingWindows (buildSlidingWindows asciiLower exampleQuran exampleSession) =
       specWindows asciiLower (ayas exampleSura) 1 1"
    using r by blast
  have 6: "makeWindow asciiLower (versesFrom (ayas exampleSura) 2 1)
       \<in> set (slidingWindows (buildSlidingWindows asciiLower exampleQuran exampleSession))"
    using r 4 by blast
  have "(1::int) \<le> 1 \<and> (1::int) \<le> 2 \<and> (2::int) + 1 - 1 \<le> 2" by simp
  with r 2 have "startAyah (makeWindow asciiLower (versesFrom (ayas exampleSura) 2 1)) = 2
       \<and> endAyah (makeWindow asciiLower (versesFrom (ayas exampleSura) 2 1)) = 2 + 1 - 1"
    by blast
  then have 7: "startAyah (makeWindow asciiLower (versesFrom (ayas exampleSura) 2 1)) = 2"
    and 8: "endAyah (makeWindow asciiLower (versesFrom (ayas exampleSura) 2 1)) = 2"
    by simp_all
  show ?thesis by (intro conjI 1 2 5 6 7 8)
qed


subsection \<open>Scoring and ranking\<close>











subsection \<open>A verse against itself\<close>

lemma arabicWordMatch_refl: "w \<noteq> [] \<Longrightarrow> arabicWordMatch lower w w"
  by (simp add: arabicWordMatch_def)

lemma lcsBacktrack_self:
  "\<forall>w \<in> set ws. w \<noteq> [] \<Longrightarrow> i \<le> length ws \<Longrightarrow>
   lcsBacktrack lower dp ws ws i i acc = take i ws @ acc"
proof (induction i arbitrary: acc)
  case 0
  show ?case by (subst lcsBacktrack.simps) simp
next
  case (Suc i)
  then have "ws ! i \<noteq> []" by simp
  then have m: "arabicWordMatch lower (ws ! i) (ws ! i)" by (rule arabicWordMatch_refl)
  have "lcsBacktrack lower dp ws ws (Suc i) (Suc i) acc =
        lcsBacktrack lower dp ws ws i i (ws ! i # acc)"
    by (subst lcsBacktrack.simps) (simp add: m)
  also have "\<dots> = take i ws @ (ws ! i # acc)" using Suc by simp
  also have "\<dots> = take (Suc i) ws @ acc" using Suc.prems by (simp add: take_Suc_conv_app_nth)
  finally show ?case .
qed

lemma longestCommonSubsequence_self:
  "\<forall>w \<in> set ws. w \<noteq> [] \<Longrightarrow> longestCommonSubsequence lower ws ws = ws"
  by (simp add: longestCommonSubsequence_def Let_def lcsBacktrack_self)

lemma tokenize_nonempty_words: "w \<in> set (tokenize s) \<Longrightarrow> w \<noteq> []"
  by (auto simp: tokenize_def)

lemma splitWhitespace_keeps:
  "cur \<noteq> [] \<Longrightarrow> \<exists>w \<in> set (splitWhitespace cur s). w \<noteq> []"
  by (induction s arbitrary: cur) auto

lemma tokenize_nonempty:
  assumes "s \<noteq> []" "\<not> isWhiteSpace (hd s)"
  shows "tokenize s \<noteq> []"
proof -
  obtain c cs where s: "s = c # cs" using assms(1) by (cases s) auto
  have "\<exists>w \<in> set (splitWhitespace [c] cs). w \<noteq> []" by (rule splitWhitespace_keeps) simp
  then show ?thesis using s assms(2) by (auto simp: tokenize_def filter_empty_conv)
qed

lemma tokenize_normalize_nonempty:
  assumes "caseMapping lower" "normalizeArabicText lower s \<noteq> []"
  shows "tokenize (normalizeArabicText lower s) \<noteq> []"
proof -
  let ?n = "normalizeArabicText lower s"
  have "trim ?n = ?n" using canonical_normalize [OF assms(1), of s] by (simp add: canonical_def)
  then have "\<not> isWhiteSpace (hd ?n)" using trim_hd [of ?n] assms(2) by simp
  with assms(2) show ?thesis by (rule tokenize_nonempty)
qed

lemma calculateSequenceMatch_self:
  "ws \<noteq> [] \<Longrightarrow> \<forall>w \<in> set ws. w \<noteq> [] \<Longrightarrow> calculateSequenceMatch lower ws ws = 1"
  by (simp add: calculateSequenceMatch_def longestCommonSubsequence_self)

lemma words_makeWindow_single:
  "words (makeWindow lower [verse]) = tokenize (normalizeArabicText lower (ayaText verse))"
  by (simp add: makeWindow_def Let_def)

text \<open>
  \<^bold>\<open>C7.\<close> For every verse whose normalized text is not empty, the words of that text
  scored against the window of exactly that verse give a longest common subsequence of
  all the words, hence a sequence match of 1 and an accuracy of 1. The runtime's
  \<^verbatim>\<open>toLowerCase\<close> is any case mapping \<open>lower\<close>.
\<close>

theorem own_text_scores_one:
  assumes "caseMapping lower"
    and "normalizeArabicText lower (ayaText verse) \<noteq> []"
    and "transcribedWords = tokenize (normalizeArabicText lower (ayaText verse))"
  shows "transcribedWords \<noteq> []
       \<and> words (makeWindow lower [verse]) = transcribedWords
       \<and> longestCommonSubsequence lower transcribedWords (words (makeWindow lower [verse]))
           = transcribedWords
       \<and> calculateSequenceMatch lower transcribedWords (words (makeWindow lower [verse])) = 1
       \<and> accuracy (scoreWindow lower transcribedWords (makeWindow lower [verse])) = 1"
proof -
  have ne: "transcribedWords \<noteq> []"
    unfolding assms(3) using assms(1,2) by (rule tokenize_normalize_nonempty)
  have all: "\<forall>w \<in> set transcribedWords. w \<noteq> []"
    unfolding assms(3) using tokenize_nonempty_words by blast
  have w: "words (makeWindow lower [verse]) = transcribedWords"
    by (simp add: words_makeWindow_single assms(3))
  show ?thesis
    using ne all
    by (simp add: w longestCommonSubsequence_self calculateSequenceMatch_self scoreWindow_def Let_def)
qed

text \<open>The instance: the first verse of the example corpus.\<close>

theorem own_text_scores_one_witness:
  "caseMapping asciiLower
   \<and> normalizeArabicText asciiLower (ayaText (ayas exampleSura ! 0)) \<noteq> []
   \<and> [[0x0631, 0x0628]] = tokenize (normalizeArabicText asciiLower (ayaText (ayas exampleSura ! 0)))
   \<and> calculateSequenceMatch asciiLower [[0x0631, 0x0628]]
        (words (makeWindow asciiLower [ayas exampleSura ! 0])) = 1
   \<and> accuracy (scoreWindow asciiLower [[0x0631, 0x0628]]
        (makeWindow asciiLower [ayas exampleSura ! 0])) = 1"
proof -
  have t: "ayaText (ayas exampleSura ! 0) = [0x0631, 0x0628]" by (simp add: exampleSura_def)
  have 2: "normalizeArabicText asciiLower (ayaText (ayas exampleSura ! 0)) \<noteq> []"
    by (simp add: t normalize_rb)
  have 3: "[[0x0631, 0x0628]]
           = tokenize (normalizeArabicText asciiLower (ayaText (ayas exampleSura ! 0)))"
    by (simp add: t normalize_rb tokenize_rb)
  show ?thesis
    using caseMapping_asciiLower 2 3 own_text_scores_one [OF caseMapping_asciiLower 2 3]
    by blast
qed

subsection \<open>The edit distance\<close>






























subsection \<open>The fuzzy word match\<close>








end
